theory Spec2Isabelle
  imports Main
begin

section \<open>JavaScript values used by the Lab component\<close>

text \<open>
  The component handles strings that may be \<open>null\<close> or \<open>undefined\<close>; such a value is a
  \<open>string option\<close>. Strings are byte lists: the few characters of the source outside
  ASCII are written as their UTF-8 bytes.
\<close>

definition truthy :: "string option \<Rightarrow> bool" where
  \<comment> \<open>JavaScript truthiness of a string-or-null: \<open>null\<close>, \<open>undefined\<close> and \<open>''\<close> are falsy.\<close>
  "truthy v = (case v of None \<Rightarrow> False | Some str \<Rightarrow> str \<noteq> [])"

definition sup_plus :: string where
  \<comment> \<open>U+207A, superscript plus\<close>
  "sup_plus = [CHR 0xE2, CHR 0x81, CHR 0xBA]"

definition sup_minus :: string where
  \<comment> \<open>U+207B, superscript minus\<close>
  "sup_minus = [CHR 0xE2, CHR 0x81, CHR 0xBB]"

definition em_dash :: string where
  \<comment> \<open>U+2014\<close>
  "em_dash = [CHR 0xE2, CHR 0x80, CHR 0x94]"

definition alembic :: string where
  \<comment> \<open>U+2697 U+FE0F\<close>
  "alembic = [CHR 0xE2, CHR 0x9A, CHR 0x97, CHR 0xEF, CHR 0xB8, CHR 0x8F]"

definition microscope :: string where
  \<comment> \<open>U+1F52C\<close>
  "microscope = [CHR 0xF0, CHR 0x9F, CHR 0x94, CHR 0xAC]"

section \<open>The reaction hint matrix\<close>

record hint =
  reacts :: bool
  icon :: string
  title :: string
  detail :: string
  color :: string

definition getReactionHint :: "string option \<Rightarrow> string option \<Rightarrow> hint option" where
  "getReactionHint chemType reactionType =
     (if \<not> truthy chemType \<or> \<not> truthy reactionType then None
      else
        let paper = (if reactionType = Some ''red_litmus'' then ''Red'' else ''Blue'');
            willReact =
              ((reactionType = Some ''blue_litmus'' \<and> chemType = Some ''acid'') \<or>
               (reactionType = Some ''red_litmus'' \<and> chemType = Some ''base''))
        in
          if willReact then
            let turnsTo = (if reactionType = Some ''blue_litmus'' then ''RED'' else ''BLUE'');
                reason = (if chemType = Some ''acid''
                   then ''Acids donate H'' @ sup_plus @ '' ions, causing blue litmus to turn red.''
                   else ''Bases donate OH'' @ sup_minus @ '' ions, causing red litmus to turn blue.'')
            in Some \<lparr>reacts = True,
                     icon = alembic,
                     title = paper @ '' litmus paper WILL change colour'',
                     detail = ''Tilt your hand to pour. The paper will turn '' @ turnsTo @ ''. '' @ reason,
                     color = (if chemType = Some ''acid'' then ''#f87171'' else ''#38bdf8'')\<rparr>
          else
            let detail =
              (if chemType = Some ''neutral'' then
                 paper @ '' litmus paper does NOT change colour with a neutral substance. Neutral substances have no free H''
                   @ sup_plus @ '' or OH'' @ sup_minus @ '' ions to trigger a reaction.''
               else if chemType = Some ''acid'' then
                 paper @ '' litmus paper does NOT change colour in the presence of an acid. Red litmus only changes colour with a base (alkali). Try Blue litmus to test acids.''
               else
                 paper @ '' litmus paper does NOT change colour in the presence of a base. Blue litmus only changes colour with an acid. Try Red litmus to test bases.'')
            in Some \<lparr>reacts = False,
                     icon = microscope,
                     title = paper @ '' litmus paper will NOT change colour'',
                     detail = detail,
                     color = ''#a3a3a3''\<rparr>)"

section \<open>The reveal message\<close>

record chemical =
  chem_id :: string
  chem_label :: string
  formula :: string
  chem_type :: string

record reveal =
  headline :: string
  body :: string
  verdict :: string
  banner_color :: string

definition buildRevealMessage :: "chemical option \<Rightarrow> string option \<Rightarrow> reveal option" where
  "buildRevealMessage chemical reactionType =
     (case chemical of
        None \<Rightarrow> None
      | Some c \<Rightarrow>
          let label = chem_label c; fm = formula c; ty = chem_type c;
              paperColor = (if reactionType = Some ''red_litmus'' then ''Red'' else ''Blue'')
          in
            if ty = ''neutral'' then
              Some \<lparr>headline = ''No Reaction Observed'',
                    body = ''The '' @ paperColor @ '' Litmus paper did not change colour because ''
                      @ label @ '' ('' @ fm @ '') is a neutral substance '' @ em_dash
                      @ '' it has no acidic or basic properties to trigger a reaction.'',
                    verdict = ''NEUTRAL'',
                    banner_color = ''#a3a3a3''\<rparr>
            else if ty = ''acid'' \<and> reactionType = Some ''blue_litmus'' then
              Some \<lparr>headline = ''Acid Detected!'',
                    body = ''The Blue Litmus paper turned Red because '' @ label @ '' ('' @ fm
                      @ '') is an acid. Acids donate protons (H'' @ sup_plus
                      @ ''), which causes blue litmus to change colour.'',
                    verdict = ''ACID CONFIRMED'',
                    banner_color = ''#f87171''\<rparr>
            else if ty = ''base'' \<and> reactionType = Some ''red_litmus'' then
              Some \<lparr>headline = ''Base Detected!'',
                    body = ''The Red Litmus paper turned Blue because '' @ label @ '' ('' @ fm
                      @ '') is a base. Bases accept protons (OH'' @ sup_minus
                      @ ''), which causes red litmus to change colour.'',
                    verdict = ''BASE CONFIRMED'',
                    banner_color = ''#38bdf8''\<rparr>
            else
              let typeLabel = (if ty = ''acid'' then ''an acid'' else ''a base'')
              in Some \<lparr>headline = ''No Change '' @ em_dash @ '' Wrong Litmus'',
                       body = label @ '' ('' @ fm @ '') is '' @ typeLabel @ '', but this test used ''
                         @ paperColor @ '' Litmus. To observe a colour change, use ''
                         @ (if ty = ''acid'' then ''Blue'' else ''Red'') @ '' Litmus with this substance.'',
                       verdict = ''NO CHANGE'',
                       banner_color = ''#fbbf24''\<rparr>)"

section \<open>The session of one mounted Lab view\<close>

text \<open>
  The component is event driven and single threaded: every callback runs to its next
  \<open>await\<close> without interruption. The model is a state record and one function \<open>step\<close>
  that runs the callback of an event. The record holds the refs of the component
  (\<open>useRef\<close>), its React state (\<open>useState\<close>), and what the environment holds for it: the
  socket's ready state, the requests in flight, the frame encodings in flight, and logs
  of what was sent.

  A timer ref is a \<open>bool\<close>: the interval whose id the ref holds is still armed.
  \<open>wsRef\<close> and \<open>streamRef\<close> are \<open>bool\<close>s: the ref is not null.
\<close>

datatype ready_state = CONNECTING | OPEN | CLOSING | CLOSED

datatype ws_status = Connecting | Live | Error

datatype command = SetReaction string | SetChemical string

datatype out_msg = Text command | Binary nat

datatype request =
  GetChemicals | GetCurrent | GetStatus | PostSetChemical string | PostStop | BeaconStop

datatype pipeline_stage = AwaitCamera | AwaitPlay | Started | Failed

datatype job_stage = Encoding | Buffering

record completion =
  comp_chemical :: "chemical option"
  comp_reaction_type :: "string option"

datatype inbound = NotJson | Json string completion

datatype status_reply = StatusFailed | StatusData bool completion

record session =
  stopCalled :: bool
  pollRef :: bool
  wsRef :: bool
  streamRef :: bool
  wsReady :: bool
  frameTimerRef :: bool
  sendingRef :: bool
  reactionTypeRef :: "string option"
  activeChemRef :: "chemical option"
  activeId :: "string option"
  activeChem :: "chemical option"
  loadingChem :: "string option"
  revealData :: "reveal option"
  reactionType :: "string option"
  wsStatus :: ws_status
  mounted :: bool
  unloadListener :: bool
  pipeline :: pipeline_stage
  sock :: "ready_state option"
  outbox :: "out_msg list"
  requests :: "request list"
  pendingCurrent :: bool
  pendingPolls :: nat
  pendingSelect :: "chemical list"
  jobs :: "(nat \<times> job_stage) list"
  ticks :: nat
  wsCreated :: nat
  closeCalls :: nat
  tracksStopped :: nat

text \<open>
  Events: the continuations of \<open>startPipeline\<close> (camera granted or denied, \<open>video.play()\<close>
  settled), the socket's events, the reply to \<open>GET current/\<close>, a tick of the poll timer
  and the reply to one \<open>GET status/\<close>, a click on a substance and the reply to its POST,
  a tick of the frame timer and the completions of one encoding (which name the frame),
  and the three exits: the Back button, \<open>beforeunload\<close>, and the unmount of the component.
  The substance catalogue (\<open>chemicals\<close>) and the drawing of inbound frames change nothing
  that is modelled.
\<close>

datatype event =
    CameraGranted | CameraDenied | PlayOk | PlayFailed
  | WsOpen | WsError | WsClose | WsText inbound | WsBinary
  | CurrentReply "string option"
  | PollTick | PollReply status_reply
  | SelectClick chemical | SelectReply chemical bool
  | FrameTick | ToBlobDone nat bool | BufferDone nat | BufferFailed nat
  | BackClick | Unload | Dispose

definition mount :: session where
  \<comment> \<open>The state after the first render and its effects: both GETs issued, \<open>startPipeline\<close>
      waiting for the camera, the poll timer armed, the unload listener registered.\<close>
  "mount =
     \<lparr>stopCalled = False, pollRef = True, wsRef = False, streamRef = False, wsReady = False,
      frameTimerRef = False, sendingRef = False, reactionTypeRef = None, activeChemRef = None,
      activeId = None, activeChem = None, loadingChem = None, revealData = None,
      reactionType = None, wsStatus = Connecting, mounted = True, unloadListener = True,
      pipeline = AwaitCamera, sock = None, outbox = [], requests = [GetChemicals, GetCurrent],
      pendingCurrent = True, pendingPolls = 0, pendingSelect = [], jobs = [], ticks = 0,
      wsCreated = 0, closeCalls = 0, tracksStopped = 0\<rparr>"

definition wsSend :: "session \<Rightarrow> command \<Rightarrow> session" where
  "wsSend s payload =
     (if wsRef s \<and> sock s = Some OPEN then s\<lparr>outbox := outbox s @ [Text payload]\<rparr> else s)"

definition close_sock :: "ready_state option \<Rightarrow> ready_state option" where
  \<comment> \<open>\<open>ws.close()\<close>: a socket that is connecting or open starts closing.\<close>
  "close_sock r = (if r = Some CONNECTING \<or> r = Some OPEN then Some CLOSING else r)"

definition stopPipeline :: "session \<Rightarrow> session" where
  "stopPipeline s =
     (let s1 = s\<lparr>wsReady := False\<rparr>;
          s2 = (if frameTimerRef s1 then s1\<lparr>frameTimerRef := False\<rparr> else s1);
          s3 = (if wsRef s2
                then s2\<lparr>closeCalls := closeCalls s2 + 1, sock := close_sock (sock s2), wsRef := False\<rparr>
                else s2)
      in if streamRef s3
         then s3\<lparr>tracksStopped := tracksStopped s3 + 1, streamRef := False\<rparr>
         else s3)"

definition sendFrame :: "session \<Rightarrow> session" where
  \<comment> \<open>Called by the frame timer; the frame is numbered by the tick that captured it.\<close>
  "sendFrame s =
     (if \<not> wsReady s \<or> sock s \<noteq> Some OPEN \<or> sendingRef s then s
      else s\<lparr>sendingRef := True, jobs := jobs s @ [(ticks s, Encoding)]\<rparr>)"

definition onopen :: "session \<Rightarrow> session" where
  "onopen s =
     (let s1 = s\<lparr>wsReady := True, wsStatus := Live\<rparr>;
          s2 = (case reactionTypeRef s1 of
                  Some rt \<Rightarrow> if rt \<noteq> [] then s1\<lparr>outbox := outbox s1 @ [Text (SetReaction rt)]\<rparr> else s1
                | None \<Rightarrow> s1);
          s3 = (case activeChemRef s2 of
                  Some ac \<Rightarrow> s2\<lparr>outbox := outbox s2 @ [Text (SetChemical (chem_id ac))]\<rparr>
                | None \<Rightarrow> s2)
      in s3\<lparr>frameTimerRef := True\<rparr>)"

definition or_chemical :: "chemical option \<Rightarrow> chemical option \<Rightarrow> chemical option" where
  \<comment> \<open>\<open>a || b\<close> on objects\<close>
  "or_chemical a b = (case a of Some c \<Rightarrow> Some c | None \<Rightarrow> b)"

definition or_string :: "string option \<Rightarrow> string option \<Rightarrow> string option" where
  \<comment> \<open>\<open>a || b\<close> on strings\<close>
  "or_string a b = (if truthy a then a else b)"

definition complete_with :: "session \<Rightarrow> completion \<Rightarrow> session" where
  \<comment> \<open>The three lines shared by the push handler and the poll: cancel the poll timer, fill
      the snapshot from the refs, store the message.\<close>
  "complete_with s c =
     (let s1 = s\<lparr>pollRef := False\<rparr>;
          chemical = or_chemical (comp_chemical c) (activeChemRef s1);
          rt = or_string (comp_reaction_type c) (reactionTypeRef s1)
      in s1\<lparr>revealData := buildRevealMessage chemical rt\<rparr>)"

definition onmessage_text :: "session \<Rightarrow> inbound \<Rightarrow> session" where
  \<comment> \<open>A payload that does not parse throws inside the \<open>try\<close> and is dropped by the \<open>catch\<close>.\<close>
  "onmessage_text s m =
     (case m of
        NotJson \<Rightarrow> s
      | Json ty c \<Rightarrow> if ty = ''reaction_complete'' then complete_with s c else s)"

definition poll_closure_revealData :: "reveal option" where
  \<comment> \<open>The poll effect has no dependencies, so its callback keeps the \<open>revealData\<close> of the
      first render.\<close>
  "poll_closure_revealData = None"

definition poll_tick :: "session \<Rightarrow> session" where
  "poll_tick s =
     (if poll_closure_revealData \<noteq> None then s\<lparr>pollRef := False\<rparr>
      else s\<lparr>requests := requests s @ [GetStatus], pendingPolls := pendingPolls s + 1\<rparr>)"

definition poll_reply :: "session \<Rightarrow> status_reply \<Rightarrow> session" where
  \<comment> \<open>A failed request throws inside the \<open>try\<close> and is ignored.\<close>
  "poll_reply s r =
     (case r of
        StatusFailed \<Rightarrow> s
      | StatusData complete c \<Rightarrow> if complete then complete_with s c else s)"

definition handleSelectChemical :: "session \<Rightarrow> chemical \<Rightarrow> session" where
  \<comment> \<open>Up to the \<open>await\<close>.\<close>
  "handleSelectChemical s chem =
     (if truthy (loadingChem s) \<or> revealData s \<noteq> None then s
      else s\<lparr>loadingChem := Some (chem_id chem), revealData := None,
             requests := requests s @ [PostSetChemical (chem_id chem)],
             pendingSelect := pendingSelect s @ [chem]\<rparr>)"

definition select_reply :: "session \<Rightarrow> chemical \<Rightarrow> bool \<Rightarrow> session" where
  \<comment> \<open>After the \<open>await\<close>: the \<open>try\<close> body on success, the \<open>catch\<close> on failure, then \<open>finally\<close>.\<close>
  "select_reply s chem ok =
     (let s0 = s\<lparr>pendingSelect := remove1 chem (pendingSelect s)\<rparr>;
          s1 = (if ok
                then wsSend (s0\<lparr>activeId := Some (chem_id chem), activeChem := Some chem\<rparr>)
                       (SetChemical (chem_id chem))
                else s0)
      in s1\<lparr>loadingChem := None\<rparr>)"

definition handleBack :: "session \<Rightarrow> session" where
  \<comment> \<open>Up to the \<open>await\<close>; \<open>navigate\<close> then leads to the unmount.\<close>
  "handleBack s =
     (if stopCalled s then s
      else
        let s1 = s\<lparr>stopCalled := True\<rparr>;
            s2 = s1\<lparr>pollRef := False\<rparr>;
            s3 = stopPipeline s2
        in s3\<lparr>requests := requests s3 @ [PostStop]\<rparr>)"

definition onUnload :: "session \<Rightarrow> session" where
  "onUnload s = s\<lparr>requests := requests s @ [BeaconStop]\<rparr>"

definition unmount :: "session \<Rightarrow> session" where
  \<comment> \<open>The cleanups of the effects, in the order of their declaration: the mount effect,
      the poll effect, the unload effect.\<close>
  "unmount s =
     (let s1 = stopPipeline s;
          s2 = s1\<lparr>pollRef := False\<rparr>;
          s3 = s2\<lparr>unloadListener := False\<rparr>;
          s4 = (if \<not> stopCalled s3
                then
                  let t1 = s3\<lparr>stopCalled := True\<rparr>;
                      t2 = t1\<lparr>pollRef := False\<rparr>;
                      t3 = stopPipeline t2
                  in t3\<lparr>requests := requests t3 @ [PostStop]\<rparr>
                else s3)
      in s4\<lparr>mounted := False\<rparr>)"

definition handle :: "session \<Rightarrow> event \<Rightarrow> session" where
  \<comment> \<open>The callback of an event. An event that the environment cannot deliver in the state
      (a reply to no request, a tick of a cancelled timer, \<open>open\<close> on a socket that is not
      connecting, a message on a socket that is not open, a click on an unmounted view)
      leaves the state as it is.\<close>
  "handle s e =
     (case e of
        CameraGranted \<Rightarrow>
          if pipeline s \<noteq> AwaitCamera then s
          else if mounted s then s\<lparr>streamRef := True, pipeline := AwaitPlay\<rparr>
          else s\<lparr>streamRef := True, pipeline := Failed, wsStatus := Error\<rparr>
      | CameraDenied \<Rightarrow>
          if pipeline s \<noteq> AwaitCamera then s else s\<lparr>pipeline := Failed, wsStatus := Error\<rparr>
      | PlayOk \<Rightarrow>
          if pipeline s \<noteq> AwaitPlay then s
          else s\<lparr>pipeline := Started, sock := Some CONNECTING, wsRef := True,
                 wsCreated := wsCreated s + 1\<rparr>
      | PlayFailed \<Rightarrow>
          if pipeline s \<noteq> AwaitPlay then s else s\<lparr>pipeline := Failed, wsStatus := Error\<rparr>
      | WsOpen \<Rightarrow>
          if sock s \<noteq> Some CONNECTING then s else onopen (s\<lparr>sock := Some OPEN\<rparr>)
      | WsError \<Rightarrow>
          if sock s = None then s else s\<lparr>sock := Some CLOSED, wsStatus := Error\<rparr>
      | WsClose \<Rightarrow>
          if sock s = None then s else s\<lparr>sock := Some CLOSED, wsReady := False, wsStatus := Error\<rparr>
      | WsText m \<Rightarrow>
          if sock s \<noteq> Some OPEN then s else onmessage_text s m
      | WsBinary \<Rightarrow> s
      | CurrentReply r \<Rightarrow>
          if \<not> pendingCurrent s then s else s\<lparr>pendingCurrent := False, reactionType := r\<rparr>
      | PollTick \<Rightarrow>
          if \<not> pollRef s then s else poll_tick s
      | PollReply r \<Rightarrow>
          if pendingPolls s = 0 then s else poll_reply (s\<lparr>pendingPolls := pendingPolls s - 1\<rparr>) r
      | SelectClick chem \<Rightarrow>
          if \<not> mounted s then s else handleSelectChemical s chem
      | SelectReply chem ok \<Rightarrow>
          if chem \<notin> set (pendingSelect s) then s else select_reply s chem ok
      | FrameTick \<Rightarrow>
          if \<not> frameTimerRef s then s else sendFrame (s\<lparr>ticks := ticks s + 1\<rparr>)
      | ToBlobDone n ok \<Rightarrow>
          if (n, Encoding) \<notin> set (jobs s) then s
          else if \<not> ok then s\<lparr>jobs := remove1 (n, Encoding) (jobs s), sendingRef := False\<rparr>
          else s\<lparr>jobs := remove1 (n, Encoding) (jobs s) @ [(n, Buffering)]\<rparr>
      | BufferDone n \<Rightarrow>
          if (n, Buffering) \<notin> set (jobs s) then s
          else (if sock s = Some OPEN then s\<lparr>outbox := outbox s @ [Binary n]\<rparr> else s)
                 \<lparr>jobs := remove1 (n, Buffering) (jobs s), sendingRef := False\<rparr>
      | BufferFailed n \<Rightarrow>
          if (n, Buffering) \<notin> set (jobs s) then s
          else s\<lparr>jobs := remove1 (n, Buffering) (jobs s)\<rparr>
      | BackClick \<Rightarrow>
          if \<not> mounted s then s else handleBack s
      | Unload \<Rightarrow>
          if \<not> unloadListener s then s else onUnload s
      | Dispose \<Rightarrow>
          if \<not> mounted s then s else unmount s)"

definition commit :: "session \<Rightarrow> session \<Rightarrow> session" where
  \<comment> \<open>What React does after a callback that started in \<open>s\<close> and ended in \<open>s'\<close>. A state
      update on an unmounted component is dropped. Otherwise the view renders again and
      the effects whose dependency changed run, in the order of their declaration: the two
      that copy \<open>reactionType\<close> and \<open>activeChem\<close> into their refs, then the one that sends
      \<open>set_reaction\<close>. The effects are taken to run before the next event is handled.\<close>
  "commit s s' =
     (if \<not> mounted s'
      then s'\<lparr>activeId := activeId s, activeChem := activeChem s, loadingChem := loadingChem s,
              revealData := revealData s, reactionType := reactionType s, wsStatus := wsStatus s\<rparr>
      else
        let s1 = (if reactionType s' \<noteq> reactionType s
                  then s'\<lparr>reactionTypeRef := reactionType s'\<rparr> else s');
            s2 = (if activeChem s' \<noteq> activeChem s
                  then s1\<lparr>activeChemRef := activeChem s'\<rparr> else s1)
        in if reactionType s' \<noteq> reactionType s
           then (case reactionType s' of
                   Some rt \<Rightarrow> if rt \<noteq> [] then wsSend s2 (SetReaction rt) else s2
                 | None \<Rightarrow> s2)
           else s2)"

definition step :: "session \<Rightarrow> event \<Rightarrow> session" where
  "step s e = commit s (handle s e)"

definition run :: "session \<Rightarrow> event list \<Rightarrow> session" where
  "run s es = foldl step s es"

section \<open>What the view displays\<close>

datatype display = Idle | HintPanel hint | RevealBanner reveal

definition reactionHint :: "session \<Rightarrow> hint option" where
  "reactionHint s =
     (case activeChem s of
        Some ac \<Rightarrow>
          if revealData s = None \<and> truthy (reactionType s)
          then getReactionHint (Some (chem_type ac)) (reactionType s) else None
      | None \<Rightarrow> None)"

definition display_state :: "session \<Rightarrow> display" where
  "display_state s =
     (case revealData s of
        Some r \<Rightarrow> RevealBanner r
      | None \<Rightarrow> (case reactionHint s of Some h \<Rightarrow> HintPanel h | None \<Rightarrow> Idle))"

section \<open>Counting what was sent\<close>

definition stop_notifications :: "session \<Rightarrow> nat" where
  "stop_notifications s = length (filter (\<lambda>r. r = PostStop \<or> r = BeaconStop) (requests s))"

definition status_requests :: "session \<Rightarrow> nat" where
  "status_requests s = length (filter (\<lambda>r. r = GetStatus) (requests s))"

fun is_frame :: "out_msg \<Rightarrow> bool" where
  "is_frame (Binary n) = True"
| "is_frame (Text c) = False"

definition frames_sent :: "session \<Rightarrow> nat" where
  "frames_sent s = length (filter is_frame (outbox s))"

definition replay :: "string option \<Rightarrow> chemical option \<Rightarrow> out_msg list" where
  \<comment> \<open>The commands that stand for a setup state: the indicator, then the substance.\<close>
  "replay rt ac =
     (case rt of Some r \<Rightarrow> if r \<noteq> [] then [Text (SetReaction r)] else [] | None \<Rightarrow> [])
     @ (case ac of Some c \<Rightarrow> [Text (SetChemical (chem_id c))] | None \<Rightarrow> [])"

section \<open>Invariants of the reachable states and sample data\<close>

text \<open>
  The predicates below hold in every state reached from \<open>mount\<close>. The substances and
  traces are the closed inputs at which the theorems are instantiated.
\<close>

definition refs_synced :: "session \<Rightarrow> bool" where
  \<comment> \<open>The two refs hold what the state holds.\<close>
  "refs_synced s = (reactionTypeRef s = reactionType s \<and> activeChemRef s = activeChem s)"

definition hcl :: chemical where
  "hcl = \<lparr>chem_id = ''HCl'', chem_label = ''Hydrochloric acid'', formula = ''HCl'', chem_type = ''acid''\<rparr>"

definition naoh :: chemical where
  "naoh = \<lparr>chem_id = ''NaOH'', chem_label = ''Sodium hydroxide'', formula = ''NaOH'', chem_type = ''base''\<rparr>"

definition omitted :: completion where
  "omitted = \<lparr>comp_chemical = None, comp_reaction_type = None\<rparr>"

definition setup_trace :: "event list" where
  "setup_trace = [CameraGranted, PlayOk, WsOpen, CurrentReply (Some ''blue_litmus''),
     SelectClick hcl, SelectReply hcl True, PollTick]"

definition idle_trace :: "event list" where
  "idle_trace = [CameraGranted, PlayOk, WsOpen, CurrentReply (Some ''red_litmus''), PollTick]"

definition naoh_then_hcl :: "event list" where
  "naoh_then_hcl = [SelectClick naoh, SelectReply naoh True, SelectClick hcl]"

definition one_socket :: "session \<Rightarrow> bool" where
  \<comment> \<open>There is a socket exactly when \<open>startPipeline\<close> has run to its end, and it is the
      only one created.\<close>
  "one_socket s = ((sock s = None) = (pipeline s \<noteq> Started)
      \<and> wsCreated s = (if pipeline s = Started then 1 else 0))"

definition closed_for_good :: "session \<Rightarrow> bool" where
  \<comment> \<open>The socket of the session is closed and the status says so.\<close>
  "closed_for_good s = (sock s = Some CLOSED \<and> pipeline s = Started \<and> wsStatus s = Error)"

definition live_trace :: "event list" where
  "live_trace = [CameraGranted, PlayOk, WsOpen]"




definition frames_inv :: "session \<Rightarrow> bool" where
  \<comment> \<open>At most one encoding is in flight, and then \<open>sendingRef\<close> is set; every frame sent
      or in flight was captured by a tick that has fired.\<close>
  "frames_inv s =
     (length (jobs s) \<le> 1
      \<and> (jobs s \<noteq> [] \<longrightarrow> sendingRef s)
      \<and> frames_sent s + length (jobs s) \<le> ticks s
      \<and> (\<forall>j \<in> set (jobs s). fst j \<le> ticks s)
      \<and> (\<forall>n. Binary n \<in> set (outbox s) \<longrightarrow> n \<le> ticks s))"

definition never_captured :: "nat \<Rightarrow> session \<Rightarrow> bool" where
  \<comment> \<open>Tick \<open>k\<close> has fired and its frame is neither sent nor in flight.\<close>
  "never_captured k s =
     (k \<le> ticks s \<and> Binary k \<notin> set (outbox s) \<and> (\<forall>st. (k, st) \<notin> set (jobs s)))"

definition busy_trace :: "event list" where
  "busy_trace = [CameraGranted, PlayOk, WsOpen, FrameTick]"

definition push :: "completion \<Rightarrow> event" where
  "push c = WsText (Json ''reaction_complete'' c)"

definition poll_complete :: "completion \<Rightarrow> event" where
  "poll_complete c = PollReply (StatusData True c)"

definition report :: "chemical \<Rightarrow> completion" where
  "report ch = \<lparr>comp_chemical = Some ch, comp_reaction_type = Some ''blue_litmus''\<rparr>"

definition poll_first :: "event list" where
  "poll_first = [CameraGranted, PlayOk, WsOpen, PollTick, poll_complete (report hcl)]"

definition push_first :: "event list" where
  "push_first = [CameraGranted, PlayOk, WsOpen, PollTick, push (report hcl)]"

definition back_unload_dispose :: "event list" where
  "back_unload_dispose = [CameraGranted, PlayOk, WsOpen, BackClick, Unload, Dispose]"

definition back_dispose :: "event list" where
  "back_dispose = [CameraGranted, PlayOk, WsOpen, BackClick, Dispose]"

section \<open>The hint lookup over the six combinations\<close>

lemma truthy_Some [simp]: "truthy (Some str) = (str \<noteq> [])"
  by (simp add: truthy_def)

lemma truthy_None [simp]: "\<not> truthy None"
  by (simp add: truthy_def)

text \<open>
  Claim C1. For each substance category among acid, base and neutral and each indicator
  among red_litmus and blue_litmus, \<open>getReactionHint\<close> returns a record; its \<open>reacts\<close>
  field is true exactly for (blue_litmus, acid) and (red_litmus, base), and its \<open>detail\<close>
  text is never empty.
\<close>

theorem getReactionHint_matrix:
  assumes "ct \<in> {''acid'', ''base'', ''neutral''}"
    and "rt \<in> {''red_litmus'', ''blue_litmus''}"
  shows "\<exists>h. getReactionHint (Some ct) (Some rt) = Some h
           \<and> reacts h = ((rt = ''blue_litmus'' \<and> ct = ''acid'') \<or> (rt = ''red_litmus'' \<and> ct = ''base''))
           \<and> detail h \<noteq> []"
  using assms by (auto simp add: getReactionHint_def Let_def)

theorem getReactionHint_matrix_witness:
  "''acid'' \<in> {''acid'', ''base'', ''neutral''} \<and> ''blue_litmus'' \<in> {''red_litmus'', ''blue_litmus''}
   \<and> (\<exists>h. getReactionHint (Some ''acid'') (Some ''blue_litmus'') = Some h
           \<and> reacts h = ((''blue_litmus'' = ''blue_litmus'' \<and> ''acid'' = ''acid'')
                          \<or> (''blue_litmus'' = ''red_litmus'' \<and> ''acid'' = ''base''))
           \<and> detail h \<noteq> [])"
  using getReactionHint_matrix [of "''acid''" "''blue_litmus''"] by simp

section \<open>The callbacks as one record update\<close>

text \<open>
  The teardown callbacks assign their fields one after the other; each equals a single
  update of the state it started from. The proofs below use these equations.
\<close>

lemma stopPipeline_flat:
  "stopPipeline s =
     s\<lparr>wsReady := False, frameTimerRef := False,
       closeCalls := (if wsRef s then closeCalls s + 1 else closeCalls s),
       sock := (if wsRef s then close_sock (sock s) else sock s),
       wsRef := False,
       tracksStopped := (if streamRef s then tracksStopped s + 1 else tracksStopped s),
       streamRef := False\<rparr>"
  by (simp add: stopPipeline_def Let_def)

lemma handleBack_flat:
  "handleBack s =
     (if stopCalled s then s
      else s\<lparr>stopCalled := True, pollRef := False, wsReady := False, frameTimerRef := False,
       closeCalls := (if wsRef s then closeCalls s + 1 else closeCalls s),
       sock := (if wsRef s then close_sock (sock s) else sock s),
       wsRef := False,
       tracksStopped := (if streamRef s then tracksStopped s + 1 else tracksStopped s),
       streamRef := False,
       requests := requests s @ [PostStop]\<rparr>)"
  by (simp add: handleBack_def stopPipeline_flat Let_def)

lemma unmount_flat:
  "unmount s =
     s\<lparr>wsReady := False, frameTimerRef := False,
       closeCalls := (if wsRef s then closeCalls s + 1 else closeCalls s),
       sock := (if wsRef s then close_sock (sock s) else sock s),
       wsRef := False,
       tracksStopped := (if streamRef s then tracksStopped s + 1 else tracksStopped s),
       streamRef := False,
       pollRef := False, unloadListener := False, stopCalled := True,
       requests := (if stopCalled s then requests s else requests s @ [PostStop]),
       mounted := False\<rparr>"
  by (simp add: unmount_def stopPipeline_flat Let_def)

lemma onopen_flat:
  "onopen s =
     s\<lparr>wsReady := True, wsStatus := Live,
       outbox := outbox s @ replay (reactionTypeRef s) (activeChemRef s),
       frameTimerRef := True\<rparr>"
  by (simp add: onopen_def replay_def Let_def split: option.splits)

lemmas flat =
  stopPipeline_flat handleBack_flat unmount_flat onopen_flat wsSend_def sendFrame_def
  complete_with_def onmessage_text_def poll_tick_def poll_reply_def handleSelectChemical_def
  select_reply_def onUnload_def poll_closure_revealData_def

section \<open>The refs mirror the state\<close>

lemma handle_refs:
  "reactionTypeRef (handle s e) = reactionTypeRef s \<and> activeChemRef (handle s e) = activeChemRef s"
  by (cases e) (simp_all add: handle_def flat Let_def split: option.splits inbound.splits status_reply.splits)

lemma step_refs_synced: "refs_synced s \<Longrightarrow> refs_synced (step s e)"
  using handle_refs [of s e]
  by (auto simp add: refs_synced_def step_def commit_def wsSend_def Let_def split: option.splits)

lemma run_refs_synced: "refs_synced s \<Longrightarrow> refs_synced (run s es)"
  by (induction es arbitrary: s) (simp_all add: run_def step_refs_synced)

lemma mount_refs_synced: "refs_synced mount"
  by (simp add: refs_synced_def mount_def)

lemma run_Cons: "run s (e # es) = run (step s e) es"
  by (simp add: run_def)

lemma run_Nil: "run s [] = s"
  by (simp add: run_def)

section \<open>Completion reports\<close>




lemma setup_trace_state:
  "mounted (run mount setup_trace) \<and> sock (run mount setup_trace) = Some OPEN
   \<and> pendingPolls (run mount setup_trace) = 1
   \<and> activeChem (run mount setup_trace) = Some hcl
   \<and> reactionType (run mount setup_trace) = Some ''blue_litmus''"
  by code_simp


section \<open>A completion report with no substance to show\<close>

lemma buildRevealMessage_None: "buildRevealMessage None rt = None"
  by (simp add: buildRevealMessage_def)

lemma dropped_push:
  assumes "refs_synced s" "activeChem s = None" "revealData s = None" "comp_chemical c = None"
  shows "revealData (step s (WsText (Json ty c))) = None
       \<and> activeChem (step s (WsText (Json ty c))) = None
       \<and> reactionType (step s (WsText (Json ty c))) = reactionType s"
  using assms
  by (simp add: step_def commit_def handle_def onmessage_text_def complete_with_def or_chemical_def
        refs_synced_def buildRevealMessage_None Let_def)

lemma dropped_poll:
  assumes "refs_synced s" "activeChem s = None" "revealData s = None" "comp_chemical c = None"
  shows "revealData (step s (PollReply (StatusData b c))) = None
       \<and> activeChem (step s (PollReply (StatusData b c))) = None
       \<and> reactionType (step s (PollReply (StatusData b c))) = reactionType s"
  using assms
  by (simp add: step_def commit_def handle_def poll_reply_def complete_with_def or_chemical_def
        refs_synced_def buildRevealMessage_None Let_def)

lemma display_state_cong:
  "revealData s' = revealData s \<Longrightarrow> activeChem s' = activeChem s \<Longrightarrow> reactionType s' = reactionType s
   \<Longrightarrow> display_state s' = display_state s"
  by (simp add: display_state_def reactionHint_def split: option.splits)

text \<open>
  Claim C10. A completion report without a substance, handled while no substance is
  selected and no outcome is set: \<open>buildRevealMessage\<close> returns null, the outcome stays
  unset and the view displays what it displayed before, on the push path and on the poll
  path.
\<close>

theorem completion_without_substance_dropped:
  assumes "s = run mount es"
    and "activeChem s = None" and "revealData s = None" and "comp_chemical c = None"
  shows "buildRevealMessage (comp_chemical c) rt = None
       \<and> revealData (step s (WsText (Json ''reaction_complete'' c))) = None
       \<and> display_state (step s (WsText (Json ''reaction_complete'' c))) = display_state s
       \<and> revealData (step s (PollReply (StatusData True c))) = None
       \<and> display_state (step s (PollReply (StatusData True c))) = display_state s"
proof -
  have sync: "refs_synced s"
    using assms(1) by (simp add: run_refs_synced mount_refs_synced)
  note push = dropped_push [OF sync assms(2-4), of "''reaction_complete''"]
  note poll = dropped_poll [OF sync assms(2-4), of True]
  show ?thesis
    using push poll assms(2-4)
    by (simp add: buildRevealMessage_None display_state_cong)
qed

lemma idle_trace_state:
  "activeChem (run mount idle_trace) = None \<and> revealData (run mount idle_trace) = None
   \<and> sock (run mount idle_trace) = Some OPEN \<and> pendingPolls (run mount idle_trace) = 1
   \<and> display_state (run mount idle_trace) = Idle"
  by code_simp

theorem completion_without_substance_dropped_witness:
  "activeChem (run mount idle_trace) = None \<and> revealData (run mount idle_trace) = None
   \<and> comp_chemical omitted = None
   \<and> sock (run mount idle_trace) = Some OPEN \<and> pendingPolls (run mount idle_trace) = 1
   \<and> buildRevealMessage (comp_chemical omitted) (Some ''red_litmus'') = None
   \<and> revealData (step (run mount idle_trace) (WsText (Json ''reaction_complete'' omitted))) = None
   \<and> display_state (step (run mount idle_trace) (WsText (Json ''reaction_complete'' omitted))) = Idle
   \<and> revealData (step (run mount idle_trace) (PollReply (StatusData True omitted))) = None
   \<and> display_state (step (run mount idle_trace) (PollReply (StatusData True omitted))) = Idle"
  using completion_without_substance_dropped [of "run mount idle_trace" idle_trace omitted "Some ''red_litmus''"]
    idle_trace_state
  by (simp add: omitted_def)

section \<open>Selecting a substance\<close>

text \<open>
  Claim C7. When the POST of a selection fails, \<open>activeId\<close> and \<open>activeChem\<close> keep their
  values (and nothing is sent to the consumer), and \<open>loadingChem\<close> is cleared; it is
  cleared on success as well.
\<close>

theorem failed_selection_keeps_prior:
  assumes "mounted s" and "chem \<in> set (pendingSelect s)"
  shows "activeId (step s (SelectReply chem False)) = activeId s
       \<and> activeChem (step s (SelectReply chem False)) = activeChem s
       \<and> activeChemRef (step s (SelectReply chem False)) = activeChemRef s
       \<and> outbox (step s (SelectReply chem False)) = outbox s
       \<and> loadingChem (step s (SelectReply chem False)) = None
       \<and> loadingChem (step s (SelectReply chem True)) = None"
  using assms
  by (simp add: step_def commit_def handle_def select_reply_def wsSend_def Let_def)

lemma naoh_then_hcl_state:
  "mounted (run mount naoh_then_hcl) \<and> hcl \<in> set (pendingSelect (run mount naoh_then_hcl))
   \<and> activeId (run mount naoh_then_hcl) = Some ''NaOH''
   \<and> activeChem (run mount naoh_then_hcl) = Some naoh
   \<and> loadingChem (run mount naoh_then_hcl) = Some ''HCl''"
  by code_simp

theorem failed_selection_keeps_prior_witness:
  "mounted (run mount naoh_then_hcl) \<and> hcl \<in> set (pendingSelect (run mount naoh_then_hcl))
   \<and> loadingChem (run mount naoh_then_hcl) = Some ''HCl''
   \<and> activeId (step (run mount naoh_then_hcl) (SelectReply hcl False)) = Some ''NaOH''
   \<and> activeChem (step (run mount naoh_then_hcl) (SelectReply hcl False)) = Some naoh
   \<and> loadingChem (step (run mount naoh_then_hcl) (SelectReply hcl False)) = None
   \<and> loadingChem (step (run mount naoh_then_hcl) (SelectReply hcl True)) = None"
  using failed_selection_keeps_prior [of "run mount naoh_then_hcl" hcl] naoh_then_hcl_state
  by simp

section \<open>The fallback poll after a pushed completion\<close>

lemma handle_poll_cancelled:
  "\<not> pollRef s \<Longrightarrow> \<not> pollRef (handle s e) \<and> filter (\<lambda>r. r = GetStatus) (requests (handle s e)) = filter (\<lambda>r. r = GetStatus) (requests s)"
  by (cases e) (simp_all add: handle_def flat Let_def split: inbound.splits status_reply.splits)

lemma commit_poll: "pollRef (commit s s') = pollRef s' \<and> requests (commit s s') = requests s'"
  by (simp add: commit_def wsSend_def Let_def split: option.splits)

lemma step_poll_cancelled:
  "\<not> pollRef s \<Longrightarrow> \<not> pollRef (step s e) \<and> status_requests (step s e) = status_requests s"
  using handle_poll_cancelled [of s e]
  by (simp add: step_def commit_poll status_requests_def)

lemma run_poll_cancelled:
  "\<not> pollRef s \<Longrightarrow> \<not> pollRef (run s es) \<and> status_requests (run s es) = status_requests s"
proof (induction es arbitrary: s)
  case Nil
  then show ?case by (simp add: run_Nil)
next
  case (Cons e es)
  from Cons.prems have "\<not> pollRef (step s e)" and "status_requests (step s e) = status_requests s"
    by (simp_all add: step_poll_cancelled)
  with Cons.IH [of "step s e"] show ?case
    by (simp add: run_Cons)
qed

lemma push_cancels_poll:
  "sock s = Some OPEN \<Longrightarrow> \<not> pollRef (step s (WsText (Json ''reaction_complete'' c)))
    \<and> status_requests (step s (WsText (Json ''reaction_complete'' c))) = status_requests s"
  by (simp add: step_def commit_poll status_requests_def handle_def onmessage_text_def complete_with_def Let_def)

text \<open>
  Claim C6. Handling a pushed \<open>reaction_complete\<close> cancels the poll timer, and from then on
  no event of the session issues another \<open>GET status/\<close>: the number of status requests
  stays what it was when the event arrived. This bounds the requests after any delay, one
  poll interval included.
\<close>

theorem no_poll_after_push:
  assumes "sock s = Some OPEN"
  shows "\<not> pollRef (step s (WsText (Json ''reaction_complete'' c)))
       \<and> (\<forall>es. status_requests (run (step s (WsText (Json ''reaction_complete'' c))) es) = status_requests s)"
  using push_cancels_poll [OF assms, of c]
    run_poll_cancelled [of "step s (WsText (Json ''reaction_complete'' c))"]
  by simp

lemma setup_trace_polls:
  "pollRef (run mount setup_trace) \<and> status_requests (run mount setup_trace) = 1"
  by code_simp

theorem no_poll_after_push_witness:
  "sock (run mount setup_trace) = Some OPEN \<and> pollRef (run mount setup_trace)
   \<and> \<not> pollRef (step (run mount setup_trace) (WsText (Json ''reaction_complete'' omitted)))
   \<and> (\<forall>es. status_requests (run (step (run mount setup_trace) (WsText (Json ''reaction_complete'' omitted))) es) = 1)"
  using no_poll_after_push [of "run mount setup_trace" omitted] setup_trace_state setup_trace_polls
  by simp

section \<open>The socket is opened once and closes for good\<close>

lemma close_sock_simps [simp]:
  "close_sock None = None" "close_sock (Some CLOSED) = Some CLOSED" "close_sock (Some r) \<noteq> None"
  "\<exists>r'. close_sock (Some r) = Some r'"
  by (simp_all add: close_sock_def)

lemma handle_one_socket: "one_socket s \<Longrightarrow> one_socket (handle s e)"
  by (cases e) (auto simp add: one_socket_def handle_def flat Let_def split: inbound.splits status_reply.splits)

lemma commit_socket:
  "sock (commit s s') = sock s' \<and> pipeline (commit s s') = pipeline s' \<and> wsCreated (commit s s') = wsCreated s'"
  by (simp add: commit_def wsSend_def Let_def split: option.splits)

lemma step_one_socket: "one_socket s \<Longrightarrow> one_socket (step s e)"
  using handle_one_socket [of s e] by (simp add: one_socket_def step_def commit_socket)

lemma run_one_socket: "one_socket s \<Longrightarrow> one_socket (run s es)"
  by (induction es arbitrary: s) (simp_all add: run_Nil run_Cons step_one_socket)

lemma mount_one_socket: "one_socket mount"
  by (simp add: one_socket_def mount_def)

lemma handle_closed_for_good:
  "closed_for_good s \<Longrightarrow> closed_for_good (handle s e) \<and> wsCreated (handle s e) = wsCreated s"
  by (cases e) (simp_all add: closed_for_good_def handle_def flat Let_def split: inbound.splits status_reply.splits)

lemma commit_wsStatus:
  "wsStatus s = Error \<Longrightarrow> wsStatus s' = Error \<Longrightarrow> wsStatus (commit s s') = Error"
  by (simp add: commit_def wsSend_def Let_def split: option.splits)

lemma step_closed_for_good:
  "closed_for_good s \<Longrightarrow> closed_for_good (step s e) \<and> wsCreated (step s e) = wsCreated s"
  using handle_closed_for_good [of s e]
  by (simp add: closed_for_good_def step_def commit_socket commit_wsStatus)

lemma run_closed_for_good:
  "closed_for_good s \<Longrightarrow> closed_for_good (run s es) \<and> wsCreated (run s es) = wsCreated s"
proof (induction es arbitrary: s)
  case Nil
  then show ?case by (simp add: run_Nil)
next
  case (Cons e es)
  from Cons.prems have "closed_for_good (step s e)" and "wsCreated (step s e) = wsCreated s"
    by (simp_all add: step_closed_for_good)
  with Cons.IH [of "step s e"] show ?case
    by (simp add: run_Cons)
qed

lemma leave_live:
  assumes "one_socket s" "sock s \<noteq> None" "mounted s" "e = WsError \<or> e = WsClose"
  shows "closed_for_good (step s e) \<and> wsCreated (step s e) = 1"
proof -
  have p: "pipeline s = Started"
    using assms(1,2) by (simp add: one_socket_def)
  then have w: "wsCreated s = 1"
    using assms(1) by (simp add: one_socket_def)
  have "closed_for_good (step s WsError) \<and> wsCreated (step s WsError) = 1"
    using p w assms(2,3) by (simp add: closed_for_good_def step_def commit_def handle_def)
  moreover have "closed_for_good (step s WsClose) \<and> wsCreated (step s WsClose) = 1"
    using p w assms(2,3) by (simp add: closed_for_good_def step_def commit_def handle_def)
  ultimately show ?thesis
    using assms(4) by blast
qed

text \<open>
  Claim C9. When the socket of a mounted session reports an error or closes, the
  connection status becomes \<open>Error\<close>; whatever happens afterwards, the status stays
  \<open>Error\<close>, the socket stays closed, and the session has created one socket only: nothing
  reconnects.
\<close>

theorem closed_is_terminal:
  assumes "s = run mount es0" and "mounted s" and "sock s \<noteq> None"
    and "e = WsError \<or> e = WsClose"
  shows "wsStatus (step s e) = Error
       \<and> (\<forall>es. wsStatus (run (step s e) es) = Error
               \<and> sock (run (step s e) es) = Some CLOSED
               \<and> wsCreated (run (step s e) es) = 1)"
proof -
  have "one_socket s"
    using assms(1) by (simp add: run_one_socket mount_one_socket)
  then have c: "closed_for_good (step s e)" and w: "wsCreated (step s e) = 1"
    using leave_live assms(2-4) by blast+
  show ?thesis
    using c w run_closed_for_good [OF c] by (simp add: closed_for_good_def)
qed

lemma live_trace_state:
  "mounted (run mount live_trace) \<and> sock (run mount live_trace) = Some OPEN
   \<and> wsStatus (run mount live_trace) = Live"
  by code_simp

theorem closed_is_terminal_witness:
  "mounted (run mount live_trace) \<and> sock (run mount live_trace) = Some OPEN
   \<and> wsStatus (run mount live_trace) = Live
   \<and> wsStatus (step (run mount live_trace) WsClose) = Error
   \<and> (\<forall>es. wsStatus (run (step (run mount live_trace) WsClose) es) = Error
          \<and> sock (run (step (run mount live_trace) WsClose) es) = Some CLOSED
          \<and> wsCreated (run (step (run mount live_trace) WsClose) es) = 1)"
  using closed_is_terminal [of "run mount live_trace" live_trace WsClose] live_trace_state
  by simp

section \<open>Replay of the setup on open\<close>

lemma close_sock_not_connecting [simp]: "r \<noteq> Some CONNECTING \<Longrightarrow> close_sock r \<noteq> Some CONNECTING"
  by (simp add: close_sock_def)

lemma close_sock_eq_None [simp]: "(close_sock r = None) = (r = None)"
  by (simp add: close_sock_def)

lemma close_sock_connecting [simp]: "(close_sock r = Some CONNECTING) = False"
  by (simp add: close_sock_def)














section \<open>Backpressure of the frame sender\<close>

lemma single_job: "length xs \<le> 1 \<Longrightarrow> x \<in> set xs \<Longrightarrow> xs = [x]"
  by (cases xs) auto

lemma frames_sent_text [simp]:
  "frames_sent (s\<lparr>outbox := outbox s @ [Text c]\<rparr>) = frames_sent s"
  by (simp add: frames_sent_def)

lemma replay_text [simp]:
  "filter is_frame (replay rt ac) = []" "Binary n \<notin> set (replay rt ac)"
  by (simp_all add: replay_def split: option.splits)

lemma handle_frames_inv: "frames_inv s \<Longrightarrow> frames_inv (handle s e)"
proof (cases e)
  case FrameTick
  then show ?thesis if "frames_inv s"
    using that by (auto simp add: frames_inv_def frames_sent_def handle_def sendFrame_def)
next
  case (ToBlobDone n ok)
  show ?thesis if inv: "frames_inv s"
  proof (cases "(n, Encoding) \<in> set (jobs s)")
    case True
    with inv have "jobs s = [(n, Encoding)]"
      by (simp add: frames_inv_def single_job)
    with inv ToBlobDone show ?thesis
      by (simp add: frames_inv_def frames_sent_def handle_def)
  next
    case False
    with inv ToBlobDone show ?thesis by (simp add: handle_def)
  qed
next
  case (BufferDone n)
  show ?thesis if inv: "frames_inv s"
  proof (cases "(n, Buffering) \<in> set (jobs s)")
    case True
    with inv have "jobs s = [(n, Buffering)]"
      by (simp add: frames_inv_def single_job)
    with inv BufferDone show ?thesis
      by (auto simp add: frames_inv_def frames_sent_def handle_def)
  next
    case False
    with inv BufferDone show ?thesis by (simp add: handle_def)
  qed
next
  case (BufferFailed n)
  show ?thesis if inv: "frames_inv s"
  proof (cases "(n, Buffering) \<in> set (jobs s)")
    case True
    with inv have "jobs s = [(n, Buffering)]"
      by (simp add: frames_inv_def single_job)
    with inv BufferFailed show ?thesis
      by (simp add: frames_inv_def frames_sent_def handle_def)
  next
    case False
    with inv BufferFailed show ?thesis by (simp add: handle_def)
  qed
qed (auto simp add: frames_inv_def frames_sent_def handle_def flat Let_def
       split: inbound.splits status_reply.splits)

lemma commit_frames:
  "jobs (commit s s') = jobs s' \<and> ticks (commit s s') = ticks s'
   \<and> sendingRef (commit s s') = sendingRef s' \<and> frameTimerRef (commit s s') = frameTimerRef s'
   \<and> filter is_frame (outbox (commit s s')) = filter is_frame (outbox s')
   \<and> (Binary n \<in> set (outbox (commit s s'))) = (Binary n \<in> set (outbox s'))"
  by (simp add: commit_def wsSend_def Let_def split: option.splits)

lemma step_frames_inv: "frames_inv s \<Longrightarrow> frames_inv (step s e)"
  using handle_frames_inv [of s e]
  by (simp add: frames_inv_def frames_sent_def step_def commit_frames)

lemma run_frames_inv: "frames_inv s \<Longrightarrow> frames_inv (run s es)"
  by (induction es arbitrary: s) (simp_all add: run_Nil run_Cons step_frames_inv)

lemma mount_frames_inv: "frames_inv mount"
  by (simp add: frames_inv_def frames_sent_def mount_def)

lemma notin_remove1: "x \<notin> set xs \<Longrightarrow> x \<notin> set (remove1 y xs)"
  by (metis notin_set_remove1)

lemma handle_never_captured: "never_captured k s \<Longrightarrow> never_captured k (handle s e)"
proof (cases e)
  case FrameTick
  then show ?thesis if "never_captured k s"
    using that by (auto simp add: never_captured_def handle_def sendFrame_def)
next
  case (ToBlobDone n ok)
  then show ?thesis if "never_captured k s"
    using that by (auto simp add: never_captured_def handle_def notin_remove1)
next
  case (BufferDone n)
  then show ?thesis if "never_captured k s"
    using that by (auto simp add: never_captured_def handle_def notin_remove1)
next
  case (BufferFailed n)
  then show ?thesis if "never_captured k s"
    using that by (auto simp add: never_captured_def handle_def notin_remove1)
qed (auto simp add: never_captured_def handle_def flat Let_def
       split: inbound.splits status_reply.splits)

lemma step_never_captured: "never_captured k s \<Longrightarrow> never_captured k (step s e)"
  using handle_never_captured [of k s e]
  by (simp add: never_captured_def step_def commit_frames)

lemma run_never_captured: "never_captured k s \<Longrightarrow> never_captured k (run s es)"
  by (induction es arbitrary: s) (simp_all add: run_Nil run_Cons step_never_captured)

lemma skipped_tick:
  assumes "frameTimerRef s" "sendingRef s"
  shows "jobs (step s FrameTick) = jobs s \<and> outbox (step s FrameTick) = outbox s
       \<and> ticks (step s FrameTick) = Suc (ticks s) \<and> sendingRef (step s FrameTick)"
  using assms
  by (simp add: step_def commit_def handle_def sendFrame_def)

text \<open>
  Claim C4. In every reachable state at most one encoding is in flight, and the frames
  sent are no more than the ticks of the frame timer. A tick that fires while
  \<open>sendingRef\<close> is set is skipped: it starts no encoding and sends nothing, and the frame
  of that tick is never queued or sent later.
\<close>

theorem frame_backpressure:
  assumes "s = run mount es"
  shows "length (jobs s) \<le> 1
       \<and> frames_sent s \<le> ticks s
       \<and> (frameTimerRef s \<and> sendingRef s \<longrightarrow>
            jobs (step s FrameTick) = jobs s
          \<and> outbox (step s FrameTick) = outbox s
          \<and> ticks (step s FrameTick) = Suc (ticks s)
          \<and> (\<forall>es'. Binary (Suc (ticks s)) \<notin> set (outbox (run (step s FrameTick) es'))
                  \<and> (\<forall>st. (Suc (ticks s), st) \<notin> set (jobs (run (step s FrameTick) es')))))"
proof -
  have inv: "frames_inv s"
    using assms by (simp add: run_frames_inv mount_frames_inv)
  have skip: "\<forall>es'. Binary (Suc (ticks s)) \<notin> set (outbox (run (step s FrameTick) es'))
                  \<and> (\<forall>st. (Suc (ticks s), st) \<notin> set (jobs (run (step s FrameTick) es')))"
    if busy: "frameTimerRef s" "sendingRef s"
  proof -
    have "never_captured (Suc (ticks s)) (step s FrameTick)"
      using inv skipped_tick [OF busy]
      by (fastforce simp add: never_captured_def frames_inv_def)
    then show ?thesis
      using run_never_captured [of "Suc (ticks s)" "step s FrameTick"]
      by (simp add: never_captured_def)
  qed
  show ?thesis
    using inv skip skipped_tick by (simp add: frames_inv_def)
qed

lemma busy_trace_state:
  "frameTimerRef (run mount busy_trace) \<and> sendingRef (run mount busy_trace)
   \<and> ticks (run mount busy_trace) = 1 \<and> jobs (run mount busy_trace) = [(1, Encoding)]
   \<and> outbox (run mount busy_trace) = []"
  by code_simp

theorem frame_backpressure_witness:
  "frameTimerRef (run mount busy_trace) \<and> sendingRef (run mount busy_trace)
   \<and> length (jobs (run mount busy_trace)) \<le> 1
   \<and> frames_sent (run mount busy_trace) \<le> ticks (run mount busy_trace)
   \<and> jobs (step (run mount busy_trace) FrameTick) = [(1, Encoding)]
   \<and> outbox (step (run mount busy_trace) FrameTick) = []
   \<and> ticks (step (run mount busy_trace) FrameTick) = 2
   \<and> (\<forall>es'. Binary 2 \<notin> set (outbox (run (step (run mount busy_trace) FrameTick) es')))"
  using frame_backpressure [of "run mount busy_trace" busy_trace] busy_trace_state
  by (simp add: numeral_2_eq_2)

section \<open>Two completion reports\<close>

text \<open>
  Claim C2. The outcome is meant to be final: once it is set the substance buttons are
  disabled, \<open>handleSelectChemical\<close> returns at once, the poll is cancelled and the view
  asks for Back. The two places that write it do not read it first. After a poll reply
  for hydrochloric acid, a push for sodium hydroxide replaces the verdict shown; after a
  push for hydrochloric acid, the reply to a poll already in flight replaces it as well,
  and a reply that carries no substance while none is selected erases it. The claim has
  the first outcome kept in each case.
\<close>

theorem outcome_overwritten:
  "revealData (run mount poll_first) = buildRevealMessage (Some hcl) (Some ''blue_litmus'')
   \<and> revealData (run mount (poll_first @ [push (report naoh)]))
        = buildRevealMessage (Some naoh) (Some ''blue_litmus'')
   \<and> revealData (run mount (poll_first @ [push (report naoh)])) \<noteq> revealData (run mount poll_first)
   \<and> revealData (run mount push_first) = buildRevealMessage (Some hcl) (Some ''blue_litmus'')
   \<and> revealData (run mount (push_first @ [poll_complete (report naoh)]))
        = buildRevealMessage (Some naoh) (Some ''blue_litmus'')
   \<and> revealData (run mount (push_first @ [poll_complete (report naoh)])) \<noteq> revealData (run mount push_first)
   \<and> revealData (run mount (push_first @ [poll_complete omitted])) = None
   \<and> revealData (run mount push_first) \<noteq> None"
  by code_simp

section \<open>Teardown\<close>

text \<open>
  Claim C3. The Back button, then \<open>beforeunload\<close>, then the unmount: \<open>handleBack\<close> posts
  the stop notification and sets \<open>stopCalled\<close>, the unmount finds the flag set and posts
  nothing, but \<open>onUnload\<close> does not read the flag and sends its beacon. Two stop
  notifications are issued where the claim has one; the camera is released once.
  Without the \<open>beforeunload\<close> in between, the same exits issue one.
\<close>

theorem stop_notified_twice:
  "stop_notifications (run mount back_unload_dispose) = 2
   \<and> tracksStopped (run mount back_unload_dispose) = 1
   \<and> closeCalls (run mount back_unload_dispose) = 1
   \<and> requests (run mount back_unload_dispose) = [GetChemicals, GetCurrent, PostStop, BeaconStop]
   \<and> stop_notifications (run mount back_dispose) = 1"
  by code_simp

end
